theory Spec2Isabelle
  imports Main "HOL-Library.Word"
begin

unbundle bit_operations_syntax

section \<open>The NVIDIA hooks of renderdoc/driver/ihv/nv/nvapi_hooks.cpp\<close>

text \<open>
  The file installs handlers in front of two vendor libraries. Every handler runs on the
  caller's thread, reads and writes the process-wide singleton \<open>nvhooks\<close>, and calls out
  to foreign code through captured function pointers. The embedding threads the singleton
  (and the objects the handlers touch) through every handler as an explicit state, takes
  the answers of the foreign code from an environment record, and appends every foreign
  call and every diagnostic to a trace, so that "was called with", "was not called" and
  "was logged" are facts about the returned state.
\<close>

subsection \<open>Machine types and status codes\<close>

type_synonym u32 = "32 word"

text \<open>A data pointer is an address; the null pointer is address 0.\<close>
type_synonym addr = nat

text \<open>\<open>HRESULT\<close> is a signed 32-bit value; the platform macro \<open>SUCCEEDED(hr)\<close> is \<open>hr >= 0\<close>.\<close>
type_synonym HRESULT = "32 word"

definition SUCCEEDED :: "HRESULT \<Rightarrow> bool" where
  "SUCCEEDED hr = (0 \<le> sint hr)"

definition S_OK :: HRESULT where
  "S_OK = 0"

text \<open>
  \<open>NvAPI_Status\<close> is an enumeration of the vendor header official/nvapi/nvapi.h, which is
  not among the sources; the real functions may return any value of it.
\<close>
type_synonym NvAPI_Status = int

text \<open>
  Modelled from the spec: the vendor's own "invalid pointer" status, the only enumerator
  the handlers name. The vendor header gives it the value -14; no property below depends
  on the number.
\<close>
definition NVAPI_INVALID_POINTER :: NvAPI_Status where
  "NVAPI_INVALID_POINTER = - 14"

text \<open>\<open>enum NVENCSTATUS { NV_ENC_SUCCESS = 0, NV_ENC_ERR_INVALID_PTR = 6 }\<close>\<close>
type_synonym NVENCSTATUS = int

definition NV_ENC_SUCCESS :: NVENCSTATUS where
  "NV_ENC_SUCCESS = 0"

definition NV_ENC_ERR_INVALID_PTR :: NVENCSTATUS where
  "NV_ENC_ERR_INVALID_PTR = 6"

text \<open>\<open>enum NV_ENC_INPUT_RESOURCE_TYPE\<close>; the field may hold any 32-bit value.\<close>
definition NV_ENC_INPUT_RESOURCE_TYPE_DIRECTX :: u32 where
  "NV_ENC_INPUT_RESOURCE_TYPE_DIRECTX = 0x0"

definition NV_ENC_INPUT_RESOURCE_TYPE_CUDADEVICEPTR :: u32 where
  "NV_ENC_INPUT_RESOURCE_TYPE_CUDADEVICEPTR = 0x1"

definition NV_ENC_INPUT_RESOURCE_TYPE_CUDAARRAY :: u32 where
  "NV_ENC_INPUT_RESOURCE_TYPE_CUDAARRAY = 0x2"

definition NV_ENC_INPUT_RESOURCE_TYPE_OPENGL_TEX :: u32 where
  "NV_ENC_INPUT_RESOURCE_TYPE_OPENGL_TEX = 0x3"

subsection \<open>Function pointers\<close>

text \<open>The eight functions of \<open>NVAPI_FUNCS()\<close> that are declared with \<open>HOOK_NVAPI\<close>.\<close>
datatype nvapi_func =
    NvAPI_D3D11_CreateDevice
  | NvAPI_D3D11_CreateDeviceAndSwapChain
  | NvAPI_D3D11_IsNvShaderExtnOpCodeSupported
  | NvAPI_D3D11_SetNvShaderExtnSlot
  | NvAPI_D3D11_SetNvShaderExtnSlotLocalThread
  | NvAPI_D3D12_IsNvShaderExtnOpCodeSupported
  | NvAPI_D3D12_SetNvShaderExtnSlotSpace
  | NvAPI_D3D12_SetNvShaderExtnSlotSpaceLocalThread

text \<open>
  A code pointer is null, the address of some foreign function, the address
  \<open>&fname_hook\<close> of one of the eight local handlers, or the address
  \<open>&NvEncodeAPIRegisterResource_hook\<close>.
\<close>
datatype funcptr =
    NULLFN
  | VendorFn nat
  | HookFn nvapi_func
  | RegisterResourceHookFn

subsection \<open>Structures\<close>

text \<open>
  \<open>struct NV_ENC_REGISTER_RESOURCE\<close>. The source declares the first four members and
  notes that more data follows; \<open>more_data\<close> holds those bytes.
\<close>
record NV_ENC_REGISTER_RESOURCE =
  version :: u32
  resourceType :: u32
  dummy :: "u32 list"
  resourceToRegister :: addr
  more_data :: "8 word list"

text \<open>\<open>struct NV_ENCODE_API_FUNCTION_LIST\<close>, with its undeclared tail in \<open>more_table\<close>.\<close>
record NV_ENCODE_API_FUNCTION_LIST =
  version :: u32
  reserved :: u32
  otherFunctions :: "funcptr list"
  nvEncRegisterResource :: funcptr
  more_table :: "8 word list"

text \<open>
  The ten arguments that both device-creation entry points share, and the twelve
  arguments of \<open>RealD3D11CreateFunction\<close>. A swap-chain description is passed by
  pointer: \<open>None\<close> is the null pointer, \<open>Some bs\<close> a pointer to the bytes \<open>bs\<close>.
\<close>
record device_args =
  pAdapter :: addr
  DriverType :: u32
  Software :: addr
  Flags :: u32
  pFeatureLevels :: addr
  FeatureLevels :: u32
  SDKVersion :: u32
  ppDevice :: addr
  pFeatureLevel :: addr
  ppImmediateContext :: addr

record create_args =
  device :: device_args
  pSwapChainDesc :: "8 word list option"
  ppSwapChain :: addr

text \<open>
  Modelled from the spec: the interface \<open>INVAPID3DDevice\<close> is declared in
  nvapi_wrapper.h, which is not among the sources. A wrapper object exposes its real,
  unwrapped counterpart (\<open>GetReal\<close>) and carries the side-channel state that says which
  space and slot a shader extension occupies, one entry per tag (global, thread-local).
\<close>
record INVAPID3DDevice =
  GetReal :: addr
  ExtUAV_global :: "(u32 \<times> u32) option"
  ExtUAV_thread :: "(u32 \<times> u32) option"

text \<open>
  Modelled from the spec: the mutator \<open>SetShaderExtUAV(space, slot, global)\<close> of that
  interface records the requested space and slot on the wrapper's side-channel state,
  tagged with whether the assignment is thread-local or global.
\<close>
definition SetShaderExtUAV :: "u32 \<Rightarrow> u32 \<Rightarrow> bool \<Rightarrow> INVAPID3DDevice \<Rightarrow> INVAPID3DDevice" where
  "SetShaderExtUAV space slot global w =
     (if global then w\<lparr>ExtUAV_global := Some (space, slot)\<rparr>
      else w\<lparr>ExtUAV_thread := Some (space, slot)\<rparr>)"

subsection \<open>Observations\<close>

text \<open>The name printed for an identifier: the table's name, or the identifier as \<open>0x%x\<close>.\<close>
datatype ifname = Named string | HexID u32

text \<open>A call into foreign code, with the arguments as they are at the moment of the call.\<close>
datatype call =
    Call_QueryInterface u32
  | Call_IsNvShaderExtnOpCodeSupported addr u32 "bool option"
  | Call_SetNvShaderExtnSlot addr u32
  | Call_SetNvShaderExtnSlotSpace addr u32 u32
  | Call_CreateDevice device_args addr
  | Call_CreateDeviceAndSwapChain device_args "8 word list option" addr addr
  | Call_RegisterResource addr "NV_ENC_REGISTER_RESOURCE option"
  | Call_CreateInstance "NV_ENCODE_API_FUNCTION_LIST option"

datatype event =
    Invoke funcptr call
  | RDCDEBUG_allowed funcptr ifname
  | RDCWARN_disabled ifname
  | RDCWARN_version u32 u32
  | RDCERR_not_hooked
  | RDCERR_unwrap_failed addr
  | RDCASSERT_failed

text \<open>What the process does instead of returning.\<close>
datatype fault = NullDeref | NullCall

subsection \<open>State and environment\<close>

text \<open>
  The members of the singleton \<open>nvhooks\<close> (\<open>hooked f\<close> is the pointer held by the
  \<open>HookedFunction\<close> member \<open>f\<close>), the function-local \<open>static int count\<close> of
  \<open>nvapi_QueryInterface_hook\<close>, the wrapper devices of the surrounding system by address,
  and the trace.
\<close>
record state =
  nvapi_lookup :: "u32 \<rightharpoonup> string option"
  nvapi_QueryInterface :: funcptr
  NvEncodeCreate :: funcptr
  hooked :: "nvapi_func \<Rightarrow> funcptr"
  real_nvEncRegisterResource :: funcptr
  count :: "32 word"
  wrapped :: "addr \<rightharpoonup> INVAPID3DDevice"
  trace :: "event list"

text \<open>
  The collaborators, as they answer during one handler call. A foreign function is
  given the pointer it is called through and its arguments; where it receives a pointer
  to caller memory it is given the pointee (\<open>None\<close> for a null pointer) and answers with
  the pointee it leaves behind.
\<close>
record env =
  SupportedOpcode :: "u32 \<Rightarrow> bool"
  IsVendorExtensionEnabled :: bool
  UnwrapDXResource :: "addr \<Rightarrow> addr"
  QueryInterface_other :: "addr \<Rightarrow> HRESULT"
  QueryInterface_ID3D12Device :: "addr \<Rightarrow> HRESULT \<times> addr"
  real_QueryInterface :: "funcptr \<Rightarrow> u32 \<Rightarrow> funcptr"
  real_IsNvShaderExtnOpCodeSupported ::
    "funcptr \<Rightarrow> addr \<Rightarrow> u32 \<Rightarrow> bool option \<Rightarrow> NvAPI_Status \<times> bool"
  real_SetNvShaderExtnSlot :: "funcptr \<Rightarrow> addr \<Rightarrow> u32 \<Rightarrow> NvAPI_Status"
  real_SetNvShaderExtnSlotSpace :: "funcptr \<Rightarrow> addr \<Rightarrow> u32 \<Rightarrow> u32 \<Rightarrow> NvAPI_Status"
  real_CreateDevice :: "funcptr \<Rightarrow> device_args \<Rightarrow> addr \<Rightarrow> HRESULT"
  real_CreateDeviceAndSwapChain ::
    "funcptr \<Rightarrow> device_args \<Rightarrow> 8 word list option \<Rightarrow> addr \<Rightarrow> addr \<Rightarrow> HRESULT"
  real_RegisterResource ::
    "funcptr \<Rightarrow> addr \<Rightarrow> NV_ENC_REGISTER_RESOURCE option \<Rightarrow> NVENCSTATUS \<times> NV_ENC_REGISTER_RESOURCE"
  real_CreateInstance ::
    "funcptr \<Rightarrow> NV_ENCODE_API_FUNCTION_LIST option \<Rightarrow> NVENCSTATUS \<times> NV_ENCODE_API_FUNCTION_LIST"

definition emit :: "event \<Rightarrow> state \<Rightarrow> state" where
  "emit e st = st\<lparr>trace := trace st @ [e]\<rparr>"

text \<open>What a pointer to caller memory holds after foreign code has written \<open>v\<close> there.\<close>
definition written :: "'a option \<Rightarrow> 'a \<Rightarrow> 'a option" where
  "written p v = (case p of None \<Rightarrow> None | Some _ \<Rightarrow> Some v)"

subsection \<open>Object Identity Recovery\<close>

definition wrapper_at :: "state \<Rightarrow> addr \<Rightarrow> INVAPID3DDevice option" where
  "wrapper_at st p = (if p = 0 then None else wrapped st p)"

text \<open>
  Modelled from the spec: Object Identity Recovery, whose implementation on the wrapper is
  not among the sources. \<open>pDev->QueryInterface(__uuidof(INVAPID3DDevice), (void **)&nvapiDev)\<close>
  for a non-null \<open>pDev\<close> gives the result code and the value of \<open>nvapiDev\<close> afterwards. The
  query "will only succeed if it's our own wrapped device" and then yields the wrapper
  itself; any other object answers for itself and leaves \<open>nvapiDev\<close> null.
\<close>
definition QueryInterface_INVAPID3DDevice :: "env \<Rightarrow> state \<Rightarrow> addr \<Rightarrow> HRESULT \<times> addr" where
  "QueryInterface_INVAPID3DDevice e st pDev =
     (case wrapper_at st pDev of
        Some w \<Rightarrow> (S_OK, pDev)
      | None \<Rightarrow> (QueryInterface_other e pDev, 0))"

subsection \<open>Capability-query handlers\<close>

definition NvAPI_D3D11_IsNvShaderExtnOpCodeSupported_hook ::
  "env \<Rightarrow> state \<Rightarrow> addr \<Rightarrow> u32 \<Rightarrow> bool option \<Rightarrow> fault + (NvAPI_Status \<times> bool option \<times> state)" where
  "NvAPI_D3D11_IsNvShaderExtnOpCodeSupported_hook e st pDev opCode pSupported =
     (if pDev = 0 then Inl NullDeref
      else case QueryInterface_INVAPID3DDevice e st pDev of (hr, nvapiDev) \<Rightarrow>
        if SUCCEEDED hr then
          (case wrapper_at st nvapiDev of
             None \<Rightarrow> Inl NullDeref
           | Some w \<Rightarrow>
               let f = hooked st NvAPI_D3D11_IsNvShaderExtnOpCodeSupported in
               if f = NULLFN then Inl NullCall
               else case real_IsNvShaderExtnOpCodeSupported e f (GetReal w) opCode pSupported of
                 (ret, b) \<Rightarrow>
                   let st1 = emit (Invoke f
                         (Call_IsNvShaderExtnOpCodeSupported (GetReal w) opCode pSupported)) st;
                       pSupported1 = written pSupported b;
                       pSupported2 = (case pSupported1 of
                           None \<Rightarrow> None
                         | Some v \<Rightarrow> Some (v \<and> SupportedOpcode e opCode))
                   in Inr (ret, pSupported2, st1))
        else Inr (NVAPI_INVALID_POINTER, pSupported, st))"

definition NvAPI_D3D12_IsNvShaderExtnOpCodeSupported_hook ::
  "env \<Rightarrow> state \<Rightarrow> addr \<Rightarrow> u32 \<Rightarrow> bool option \<Rightarrow> fault + (NvAPI_Status \<times> bool option \<times> state)" where
  "NvAPI_D3D12_IsNvShaderExtnOpCodeSupported_hook e st pDev opCode pSupported =
     (if pDev = 0 then Inl NullDeref
      else case QueryInterface_INVAPID3DDevice e st pDev of (hr, nvapiDev) \<Rightarrow>
        if SUCCEEDED hr then
          (case wrapper_at st nvapiDev of
             None \<Rightarrow> Inl NullDeref
           | Some w \<Rightarrow>
               let real = GetReal w in
               if real = 0 then Inl NullDeref
               else case QueryInterface_ID3D12Device e real of (hr2, dev) \<Rightarrow>
                 if SUCCEEDED hr2 then
                   (let f = hooked st NvAPI_D3D12_IsNvShaderExtnOpCodeSupported in
                    if f = NULLFN then Inl NullCall
                    else case real_IsNvShaderExtnOpCodeSupported e f dev opCode pSupported of
                      (ret, b) \<Rightarrow>
                        let st1 = emit (Invoke f
                              (Call_IsNvShaderExtnOpCodeSupported dev opCode pSupported)) st
                        in if dev = 0 then Inl NullDeref
                           else
                             let pSupported1 = written pSupported b;
                                 pSupported2 = (case pSupported1 of
                                     None \<Rightarrow> None
                                   | Some v \<Rightarrow> Some (v \<and> SupportedOpcode e opCode))
                             in Inr (ret, pSupported2, st1))
                 else Inr (NVAPI_INVALID_POINTER, pSupported, st))
        else Inr (NVAPI_INVALID_POINTER, pSupported, st))"

subsection \<open>Slot-assignment handlers\<close>

text \<open>\<open>nvapiDev->SetShaderExtUAV(space, slot, global)\<close> on the wrapper at \<open>nvapiDev\<close>.\<close>
definition record_ExtUAV :: "addr \<Rightarrow> INVAPID3DDevice \<Rightarrow> u32 \<Rightarrow> u32 \<Rightarrow> bool \<Rightarrow> state \<Rightarrow> state" where
  "record_ExtUAV nvapiDev w space slot global st =
     st\<lparr>wrapped := (wrapped st)(nvapiDev \<mapsto> SetShaderExtUAV space slot global w)\<rparr>"

definition NvAPI_D3D11_SetNvShaderExtnSlot_hook ::
  "env \<Rightarrow> state \<Rightarrow> addr \<Rightarrow> u32 \<Rightarrow> fault + (NvAPI_Status \<times> state)" where
  "NvAPI_D3D11_SetNvShaderExtnSlot_hook e st pDev uavSlot =
     (if pDev = 0 then Inl NullDeref
      else case QueryInterface_INVAPID3DDevice e st pDev of (hr, nvapiDev) \<Rightarrow>
        if SUCCEEDED hr then
          (case wrapper_at st nvapiDev of
             None \<Rightarrow> Inl NullDeref
           | Some w \<Rightarrow>
               let f = hooked st NvAPI_D3D11_SetNvShaderExtnSlot in
               if f = NULLFN then Inl NullCall
               else
                 let ret = real_SetNvShaderExtnSlot e f (GetReal w) uavSlot;
                     st1 = emit (Invoke f (Call_SetNvShaderExtnSlot (GetReal w) uavSlot)) st;
                     st2 = record_ExtUAV nvapiDev w (NOT 0) uavSlot True st1
                 in Inr (ret, st2))
        else Inr (NVAPI_INVALID_POINTER, st))"

definition NvAPI_D3D11_SetNvShaderExtnSlotLocalThread_hook ::
  "env \<Rightarrow> state \<Rightarrow> addr \<Rightarrow> u32 \<Rightarrow> fault + (NvAPI_Status \<times> state)" where
  "NvAPI_D3D11_SetNvShaderExtnSlotLocalThread_hook e st pDev uavSlot =
     (if pDev = 0 then Inl NullDeref
      else case QueryInterface_INVAPID3DDevice e st pDev of (hr, nvapiDev) \<Rightarrow>
        if SUCCEEDED hr then
          (case wrapper_at st nvapiDev of
             None \<Rightarrow> Inl NullDeref
           | Some w \<Rightarrow>
               let f = hooked st NvAPI_D3D11_SetNvShaderExtnSlotLocalThread in
               if f = NULLFN then Inl NullCall
               else
                 let ret = real_SetNvShaderExtnSlot e f (GetReal w) uavSlot;
                     st1 = emit (Invoke f (Call_SetNvShaderExtnSlot (GetReal w) uavSlot)) st;
                     st2 = record_ExtUAV nvapiDev w (NOT 0) uavSlot False st1
                 in Inr (ret, st2))
        else Inr (NVAPI_INVALID_POINTER, st))"

definition NvAPI_D3D12_SetNvShaderExtnSlotSpace_hook ::
  "env \<Rightarrow> state \<Rightarrow> addr \<Rightarrow> u32 \<Rightarrow> u32 \<Rightarrow> fault + (NvAPI_Status \<times> state)" where
  "NvAPI_D3D12_SetNvShaderExtnSlotSpace_hook e st pDev uavSlot uavSpace =
     (if pDev = 0 then Inl NullDeref
      else case QueryInterface_INVAPID3DDevice e st pDev of (hr, nvapiDev) \<Rightarrow>
        if SUCCEEDED hr then
          (case wrapper_at st nvapiDev of
             None \<Rightarrow> Inl NullDeref
           | Some w \<Rightarrow>
               let f = hooked st NvAPI_D3D12_SetNvShaderExtnSlotSpace in
               if f = NULLFN then Inl NullCall
               else
                 let ret = real_SetNvShaderExtnSlotSpace e f (GetReal w) uavSlot uavSpace;
                     st1 = emit (Invoke f
                           (Call_SetNvShaderExtnSlotSpace (GetReal w) uavSlot uavSpace)) st;
                     st2 = record_ExtUAV nvapiDev w uavSpace uavSlot True st1
                 in Inr (ret, st2))
        else Inr (NVAPI_INVALID_POINTER, st))"

definition NvAPI_D3D12_SetNvShaderExtnSlotSpaceLocalThread_hook ::
  "env \<Rightarrow> state \<Rightarrow> addr \<Rightarrow> u32 \<Rightarrow> u32 \<Rightarrow> fault + (NvAPI_Status \<times> state)" where
  "NvAPI_D3D12_SetNvShaderExtnSlotSpaceLocalThread_hook e st pDev uavSlot uavSpace =
     (if pDev = 0 then Inl NullDeref
      else case QueryInterface_INVAPID3DDevice e st pDev of (hr, nvapiDev) \<Rightarrow>
        if SUCCEEDED hr then
          (case wrapper_at st nvapiDev of
             None \<Rightarrow> Inl NullDeref
           | Some w \<Rightarrow>
               let f = hooked st NvAPI_D3D12_SetNvShaderExtnSlotSpaceLocalThread in
               if f = NULLFN then Inl NullCall
               else
                 let ret = real_SetNvShaderExtnSlotSpace e f (GetReal w) uavSlot uavSpace;
                     st1 = emit (Invoke f
                           (Call_SetNvShaderExtnSlotSpace (GetReal w) uavSlot uavSpace)) st;
                     st2 = record_ExtUAV nvapiDev w uavSpace uavSlot False st1
                 in Inr (ret, st2))
        else Inr (NVAPI_INVALID_POINTER, st))"

subsection \<open>Device creation\<close>

text \<open>
  Modelled from the spec: \<open>CreateD3D11_Internal\<close> is declared in
  driver/d3d11/d3d11_hooks.h and defined outside the sources. It is the one internal
  creation routine, parameterised by the arguments of the richer entry point and by a
  caller-supplied delegate that reaches the real vendor implementation; it forwards to that
  delegate the arguments it was given and never itself requests a surface when none was
  asked for.
\<close>
definition CreateD3D11_Internal ::
  "(create_args \<Rightarrow> state \<Rightarrow> fault + (HRESULT \<times> state)) \<Rightarrow> create_args \<Rightarrow> state
     \<Rightarrow> fault + (HRESULT \<times> state)" where
  "CreateD3D11_Internal real args st = real args st"

text \<open>The lambda of \<open>NvAPI_D3D11_CreateDevice_hook\<close>; it captures \<open>outNVLevel\<close> by value.\<close>
definition CreateDevice_delegate ::
  "env \<Rightarrow> addr \<Rightarrow> create_args \<Rightarrow> state \<Rightarrow> fault + (HRESULT \<times> state)" where
  "CreateDevice_delegate e outNVLevel args st =
     (let st1 = (if pSwapChainDesc args = None \<and> ppSwapChain args = 0 then st
                 else emit RDCASSERT_failed st);
          f = hooked st1 NvAPI_D3D11_CreateDevice
      in if f = NULLFN then Inl NullCall
         else Inr (real_CreateDevice e f (device args) outNVLevel,
                   emit (Invoke f (Call_CreateDevice (device args) outNVLevel)) st1))"

definition NvAPI_D3D11_CreateDevice_hook ::
  "env \<Rightarrow> state \<Rightarrow> device_args \<Rightarrow> addr \<Rightarrow> fault + (HRESULT \<times> state)" where
  "NvAPI_D3D11_CreateDevice_hook e st dargs outNVLevel =
     CreateD3D11_Internal (CreateDevice_delegate e outNVLevel)
       \<lparr>device = dargs, pSwapChainDesc = None, ppSwapChain = 0\<rparr> st"

text \<open>The lambda of \<open>NvAPI_D3D11_CreateDeviceAndSwapChain_hook\<close>.\<close>
definition CreateDeviceAndSwapChain_delegate ::
  "env \<Rightarrow> addr \<Rightarrow> create_args \<Rightarrow> state \<Rightarrow> fault + (HRESULT \<times> state)" where
  "CreateDeviceAndSwapChain_delegate e outNVLevel args st =
     (let f = hooked st NvAPI_D3D11_CreateDeviceAndSwapChain
      in if f = NULLFN then Inl NullCall
         else Inr (real_CreateDeviceAndSwapChain e f (device args) (pSwapChainDesc args)
                     (ppSwapChain args) outNVLevel,
                   emit (Invoke f (Call_CreateDeviceAndSwapChain (device args)
                     (pSwapChainDesc args) (ppSwapChain args) outNVLevel)) st))"

definition NvAPI_D3D11_CreateDeviceAndSwapChain_hook ::
  "env \<Rightarrow> state \<Rightarrow> device_args \<Rightarrow> 8 word list option \<Rightarrow> addr \<Rightarrow> addr
     \<Rightarrow> fault + (HRESULT \<times> state)" where
  "NvAPI_D3D11_CreateDeviceAndSwapChain_hook e st dargs pDesc ppSwap outNVLevel =
     CreateD3D11_Internal (CreateDeviceAndSwapChain_delegate e outNVLevel)
       \<lparr>device = dargs, pSwapChainDesc = pDesc, ppSwapChain = ppSwap\<rparr> st"

subsection \<open>The identifier dispatch interceptor\<close>

text \<open>
  \<open>NVAPI_FUNCS()\<close>, entry by entry, and the case labels of the \<open>switch(ID)\<close> in
  \<open>nvapi_QueryInterface_hook\<close>: the table followed by three unnamed identifiers.
\<close>
datatype nvapi_entry = HOOK_NVAPI nvapi_func u32 | WHITELIST_NVAPI u32

definition NVAPI_FUNCS :: "nvapi_entry list" where
  "NVAPI_FUNCS =
     [HOOK_NVAPI NvAPI_D3D11_CreateDevice 0x6a16d3a0,
      HOOK_NVAPI NvAPI_D3D11_CreateDeviceAndSwapChain 0xbb939ee5,
      HOOK_NVAPI NvAPI_D3D11_IsNvShaderExtnOpCodeSupported 0x5f68da40,
      HOOK_NVAPI NvAPI_D3D11_SetNvShaderExtnSlot 0x8e90bb9f,
      HOOK_NVAPI NvAPI_D3D11_SetNvShaderExtnSlotLocalThread 0x0e6482a0,
      HOOK_NVAPI NvAPI_D3D12_IsNvShaderExtnOpCodeSupported 0x3dfacec8,
      HOOK_NVAPI NvAPI_D3D12_SetNvShaderExtnSlotSpace 0xac2dfeb5,
      HOOK_NVAPI NvAPI_D3D12_SetNvShaderExtnSlotSpaceLocalThread 0x43d867c0,
      WHITELIST_NVAPI 0x0150e828,
      WHITELIST_NVAPI 0xd22bdd7e,
      WHITELIST_NVAPI 0x6c2d048c,
      WHITELIST_NVAPI 0x01053fa5]"

definition switch_cases :: "nvapi_entry list" where
  "switch_cases = NVAPI_FUNCS @
     [WHITELIST_NVAPI 0xad298d3f, WHITELIST_NVAPI 0x33c7358c, WHITELIST_NVAPI 0x593e8644]"

fun case_label :: "nvapi_entry \<Rightarrow> u32" where
  "case_label (HOOK_NVAPI fname ID) = ID"
| "case_label (WHITELIST_NVAPI ID) = ID"

text \<open>The case the \<open>switch\<close> jumps to; \<open>None\<close> is \<open>default\<close>.\<close>
fun switch_on :: "nvapi_entry list \<Rightarrow> u32 \<Rightarrow> nvapi_entry option" where
  "switch_on [] ID = None"
| "switch_on (c # cs) ID = (if case_label c = ID then Some c else switch_on cs ID)"

text \<open>The identifiers of the hook set and of the always-allow set.\<close>
definition hook_ids :: "u32 list" where
  "hook_ids = [ID. HOOK_NVAPI fname ID \<leftarrow> switch_cases]"

definition whitelist_ids :: "u32 list" where
  "whitelist_ids = [ID. WHITELIST_NVAPI ID \<leftarrow> switch_cases]"

text \<open>
  Modelled from the spec: the class template \<open>HookedFunction\<close> is declared in
  hooks/hooks.h, which is not among the sources. A hook registration holds the captured
  real function pointer of a function. The real pointer is captured the first time its
  identifier is resolved ("first time only") and, once captured, never changes for the
  life of the process: \<open>SetFuncPtr\<close> records the pointer it is given while the
  registration is still empty and leaves a captured pointer as it is; \<open>operator()\<close> yields
  the recorded pointer (\<open>hooked st fname\<close>).
\<close>
definition SetFuncPtr :: "nvapi_func \<Rightarrow> funcptr \<Rightarrow> state \<Rightarrow> state" where
  "SetFuncPtr fname p st =
     (if hooked st fname = NULLFN then st\<lparr>hooked := (hooked st)(fname := p)\<rparr> else st)"

text \<open>
  \<open>nvhooks.nvapi_lookup[ID]\<close> on a \<open>std::unordered_map\<close>: a missing key is inserted with
  a null name.
\<close>
definition index_nvapi_lookup :: "state \<Rightarrow> u32 \<Rightarrow> string option \<times> state" where
  "index_nvapi_lookup st ID =
     (case nvapi_lookup st ID of
        None \<Rightarrow> (None, st\<lparr>nvapi_lookup := (nvapi_lookup st)(ID \<mapsto> None)\<rparr>)
      | Some cname \<Rightarrow> (cname, st))"

text \<open>
  \<open>count\<close> is a 32-bit \<open>int\<close>: the comparison is signed, and \<open>count++\<close> is the
  two's-complement increment of the machine (the language leaves the step from
  \<open>INT_MAX\<close> undefined).
\<close>
definition nvapi_QueryInterface_hook :: "env \<Rightarrow> state \<Rightarrow> u32 \<Rightarrow> fault + (funcptr \<times> state)" where
  "nvapi_QueryInterface_hook e st ID =
     (let q = nvapi_QueryInterface st in
      if q = NULLFN then Inl NullCall
      else
        let real = real_QueryInterface e q ID;
            st1 = emit (Invoke q (Call_QueryInterface ID)) st
        in if real = NULLFN then Inr (real, st1)
           else case switch_on switch_cases ID of
               Some (HOOK_NVAPI fname _) \<Rightarrow> Inr (HookFn fname, SetFuncPtr fname real st1)
             | Some (WHITELIST_NVAPI _) \<Rightarrow> Inr (real, st1)
             | None \<Rightarrow>
                 (case index_nvapi_lookup st1 ID of (cname, st2) \<Rightarrow>
                    let name = (case cname of Some c \<Rightarrow> Named c | None \<Rightarrow> HexID ID) in
                    if IsVendorExtensionEnabled e
                    then Inr (real, emit (RDCDEBUG_allowed real name) st2)
                    else
                      let st3 = (if sint (count st2) < 10
                                 then emit (RDCWARN_disabled name) st2 else st2);
                          st4 = st3\<lparr>count := count st3 + 1\<rparr>
                      in Inr (NULLFN, st4)))"

text \<open>A sequence of resolutions, each with the environment of its moment.\<close>
fun resolve_all :: "(env \<times> u32) list \<Rightarrow> state \<Rightarrow> fault + (funcptr list \<times> state)" where
  "resolve_all [] st = Inr ([], st)"
| "resolve_all ((e, ID) # rest) st =
     (case nvapi_QueryInterface_hook e st ID of
        Inl f \<Rightarrow> Inl f
      | Inr (p, st1) \<Rightarrow>
          (case resolve_all rest st1 of
             Inl f \<Rightarrow> Inl f
           | Inr (ps, st2) \<Rightarrow> Inr (p # ps, st2)))"

subsection \<open>The encoder's dispatch table\<close>

text \<open>\<open>nvhooks.real_nvEncRegisterResource(encoder, params)\<close> through the non-null \<open>f\<close>.\<close>
definition call_RegisterResource ::
  "env \<Rightarrow> funcptr \<Rightarrow> addr \<Rightarrow> NV_ENC_REGISTER_RESOURCE option \<Rightarrow> state
     \<Rightarrow> NVENCSTATUS \<times> NV_ENC_REGISTER_RESOURCE option \<times> state" where
  "call_RegisterResource e f encoder params st =
     (case real_RegisterResource e f encoder params of
        (ret, p) \<Rightarrow> (ret, written params p, emit (Invoke f (Call_RegisterResource encoder params)) st))"

definition NvEncodeAPIRegisterResource_hook ::
  "env \<Rightarrow> state \<Rightarrow> addr \<Rightarrow> NV_ENC_REGISTER_RESOURCE option
     \<Rightarrow> NVENCSTATUS \<times> NV_ENC_REGISTER_RESOURCE option \<times> state" where
  "NvEncodeAPIRegisterResource_hook e st encoder params =
     (let f = real_nvEncRegisterResource st in
      if f = NULLFN then (NV_ENC_ERR_INVALID_PTR, params, emit RDCERR_not_hooked st)
      else if encoder = 0 then call_RegisterResource e f encoder params st
      else case params of
          None \<Rightarrow> call_RegisterResource e f encoder params st
        | Some p \<Rightarrow>
            if resourceType p = NV_ENC_INPUT_RESOURCE_TYPE_DIRECTX then
              (let origHandle = resourceToRegister p;
                   p1 = p\<lparr>resourceToRegister := UnwrapDXResource e origHandle\<rparr>
               in case (if resourceToRegister p1 = 0
                        then (p1\<lparr>resourceToRegister := origHandle\<rparr>,
                              emit (RDCERR_unwrap_failed origHandle) st)
                        else (p1, st)) of
                    (p2, st1) \<Rightarrow>
                      (case call_RegisterResource e f encoder (Some p2) st1 of
                         (ret, params3, st2) \<Rightarrow>
                           (ret,
                            (case params3 of
                               None \<Rightarrow> None
                             | Some p3 \<Rightarrow> Some (p3\<lparr>resourceToRegister := origHandle\<rparr>)),
                            st2)))
            else call_RegisterResource e f encoder params st)"

text \<open>\<open>const uint32_t expectedVersion = 7 << 28 | 8 << 1 | 1 << 24 | 2 << 16;\<close>\<close>
definition expectedVersion :: u32 where
  "expectedVersion = push_bit 28 7 OR push_bit 1 8 OR push_bit 24 1 OR push_bit 16 2"

text \<open>
  \<open>NvEncodeAPICreateInstance_hook\<close>. Modelled from the spec: \<open>RDCASSERT\<close> comes from a
  header outside the sources; a failed assertion is logged as an assertion failure and is
  not fatal, the handler carries on.
\<close>
definition NvEncodeAPICreateInstance_hook ::
  "env \<Rightarrow> state \<Rightarrow> NV_ENCODE_API_FUNCTION_LIST option
     \<Rightarrow> fault + (NVENCSTATUS \<times> NV_ENCODE_API_FUNCTION_LIST option \<times> state)" where
  "NvEncodeAPICreateInstance_hook e st functions =
     (let c = NvEncodeCreate st in
      if c = NULLFN then Inl NullCall
      else case real_CreateInstance e c functions of (ret, t) \<Rightarrow>
        let st1 = emit (Invoke c (Call_CreateInstance functions)) st;
            functions1 = written functions t
        in if ret = NV_ENC_SUCCESS then
             (case functions1 of
                None \<Rightarrow> Inr (ret, functions1, st1)
              | Some tbl \<Rightarrow>
                  if nvEncRegisterResource tbl = NULLFN then Inr (ret, functions1, st1)
                  else
                    let st2 = (if NV_ENCODE_API_FUNCTION_LIST.version tbl = expectedVersion
                               then st1
                               else emit (RDCWARN_version
                                      (NV_ENCODE_API_FUNCTION_LIST.version tbl) expectedVersion) st1);
                        st3 = (if real_nvEncRegisterResource st2 = NULLFN \<or>
                                  real_nvEncRegisterResource st2 = nvEncRegisterResource tbl
                               then st2 else emit RDCASSERT_failed st2);
                        st4 = st3\<lparr>real_nvEncRegisterResource := nvEncRegisterResource tbl\<rparr>
                    in Inr (ret, Some (tbl\<lparr>nvEncRegisterResource := RegisterResourceHookFn\<rparr>), st4))
           else Inr (ret, functions1, st1))"

subsection \<open>Sample inputs\<close>

text \<open>The name a denial prints for an identifier, read off the lookup table.\<close>
definition display_name :: "state \<Rightarrow> u32 \<Rightarrow> ifname" where
  "display_name st ID = (case nvapi_lookup st ID of Some (Some c) \<Rightarrow> Named c | _ \<Rightarrow> HexID ID)"

definition empty_resource :: NV_ENC_REGISTER_RESOURCE where
  "empty_resource = \<lparr>NV_ENC_REGISTER_RESOURCE.version = 0, resourceType = 0, dummy = [],
     resourceToRegister = 0, more_data = []\<rparr>"

definition vendor_table :: NV_ENCODE_API_FUNCTION_LIST where
  "vendor_table = \<lparr>NV_ENCODE_API_FUNCTION_LIST.version = 0x71090002, reserved = 0,
     otherFunctions = replicate 30 (VendorFn 60), nvEncRegisterResource = VendorFn 51,
     more_table = [1, 2, 3]\<rparr>"

text \<open>
  A vendor that resolves every identifier but 0, reports every opcode as supported, fails
  every slot assignment, exposes a D3D12 device only on the object at address 20, and whose
  registration function fails and scribbles over the handle field.
\<close>
definition sample_env :: env where
  "sample_env = \<lparr>SupportedOpcode = (\<lambda>opc. opc = 1),
     IsVendorExtensionEnabled = False,
     UnwrapDXResource = (\<lambda>h. if h = 40 then 41 else 0),
     QueryInterface_other = (\<lambda>p. 0x80004002),
     QueryInterface_ID3D12Device = (\<lambda>p. if p = 20 then (0, 21) else (0x80004002, 0)),
     real_QueryInterface = (\<lambda>q ID. if ID = 0 then NULLFN else VendorFn (unat ID)),
     real_IsNvShaderExtnOpCodeSupported = (\<lambda>f d opc p. (0, True)),
     real_SetNvShaderExtnSlot = (\<lambda>f d s. - 1),
     real_SetNvShaderExtnSlotSpace = (\<lambda>f d s sp. - 1),
     real_CreateDevice = (\<lambda>f a n. 0),
     real_CreateDeviceAndSwapChain = (\<lambda>f a d s n. 0),
     real_RegisterResource = (\<lambda>f enc p. (8,
        case p of Some r \<Rightarrow> r\<lparr>resourceToRegister := 99\<rparr> | None \<Rightarrow> empty_resource)),
     real_CreateInstance = (\<lambda>c t. (0, vendor_table))\<rparr>"

text \<open>The same vendor, except that its resolver answers every identifier with \<open>p\<close>.\<close>
definition env_resolving_to :: "funcptr \<Rightarrow> env" where
  "env_resolving_to p = sample_env\<lparr>real_QueryInterface := (\<lambda>q ID. p)\<rparr>"

text \<open>The process right after \<open>RegisterHooks\<close>, with an empty name table.\<close>
definition fresh_state :: state where
  "fresh_state = \<lparr>nvapi_lookup = Map.empty, nvapi_QueryInterface = VendorFn 1,
     NvEncodeCreate = VendorFn 2, hooked = (\<lambda>f. NULLFN), real_nvEncRegisterResource = NULLFN,
     count = 0, wrapped = Map.empty, trace = []\<rparr>"

fun sample_real :: "nvapi_func \<Rightarrow> funcptr" where
  "sample_real NvAPI_D3D11_CreateDevice = VendorFn 101"
| "sample_real NvAPI_D3D11_CreateDeviceAndSwapChain = VendorFn 102"
| "sample_real NvAPI_D3D11_IsNvShaderExtnOpCodeSupported = VendorFn 103"
| "sample_real NvAPI_D3D11_SetNvShaderExtnSlot = VendorFn 104"
| "sample_real NvAPI_D3D11_SetNvShaderExtnSlotLocalThread = VendorFn 105"
| "sample_real NvAPI_D3D12_IsNvShaderExtnOpCodeSupported = VendorFn 106"
| "sample_real NvAPI_D3D12_SetNvShaderExtnSlotSpace = VendorFn 107"
| "sample_real NvAPI_D3D12_SetNvShaderExtnSlotSpaceLocalThread = VendorFn 108"

definition sample_wrapper :: INVAPID3DDevice where
  "sample_wrapper = \<lparr>GetReal = 20, ExtUAV_global = None, ExtUAV_thread = None\<rparr>"

definition d3d11_wrapper :: INVAPID3DDevice where
  "d3d11_wrapper = \<lparr>GetReal = 30, ExtUAV_global = None, ExtUAV_thread = None\<rparr>"

text \<open>
  A process in which every hooked function has been resolved, the encoder has been
  initialised once, and two wrapper devices live at addresses 10 and 12.
\<close>
definition sample_state :: state where
  "sample_state = \<lparr>nvapi_lookup = Map.empty, nvapi_QueryInterface = VendorFn 1,
     NvEncodeCreate = VendorFn 2, hooked = sample_real,
     real_nvEncRegisterResource = VendorFn 50, count = 0,
     wrapped = [10 \<mapsto> sample_wrapper, 12 \<mapsto> d3d11_wrapper], trace = []\<rparr>"

definition directx_resource :: NV_ENC_REGISTER_RESOURCE where
  "directx_resource = \<lparr>NV_ENC_REGISTER_RESOURCE.version = 3,
     resourceType = NV_ENC_INPUT_RESOURCE_TYPE_DIRECTX, dummy = [0, 0, 0, 0],
     resourceToRegister = 40, more_data = [7]\<rparr>"

definition cuda_resource :: NV_ENC_REGISTER_RESOURCE where
  "cuda_resource = \<lparr>NV_ENC_REGISTER_RESOURCE.version = 3,
     resourceType = NV_ENC_INPUT_RESOURCE_TYPE_CUDAARRAY, dummy = [0, 0, 0, 0],
     resourceToRegister = 40, more_data = [7]\<rparr>"

definition sample_device_args :: device_args where
  "sample_device_args = \<lparr>pAdapter = 0, DriverType = 1, Software = 0, Flags = 2,
     pFeatureLevels = 70, FeatureLevels = 1, SDKVersion = 7, ppDevice = 71, pFeatureLevel = 72,
     ppImmediateContext = 73\<rparr>"

section \<open>Properties\<close>

subsection \<open>Auxiliary facts\<close>

lemma SUCCEEDED_S_OK: "SUCCEEDED S_OK"
  by (simp add: SUCCEEDED_def S_OK_def)

lemma recover_wrapper:
  "pDev \<noteq> 0 \<Longrightarrow> wrapped st pDev = Some w \<Longrightarrow>
     QueryInterface_INVAPID3DDevice e st pDev = (S_OK, pDev) \<and> wrapper_at st pDev = Some w"
  by (simp add: QueryInterface_INVAPID3DDevice_def wrapper_at_def)

lemma expectedVersion_value: "expectedVersion = 0x71020010"
  by (simp add: expectedVersion_def)

lemma hook_ids_eq:
  "hook_ids = [0x6a16d3a0, 0xbb939ee5, 0x5f68da40, 0x8e90bb9f, 0x0e6482a0, 0x3dfacec8,
               0xac2dfeb5, 0x43d867c0]"
  by (simp add: hook_ids_def switch_cases_def NVAPI_FUNCS_def)

lemma whitelist_ids_eq:
  "whitelist_ids = [0x0150e828, 0xd22bdd7e, 0x6c2d048c, 0x01053fa5, 0xad298d3f, 0x33c7358c,
                    0x593e8644]"
  by (simp add: whitelist_ids_def switch_cases_def NVAPI_FUNCS_def)

lemma switch_on_unknown:
  "ID \<notin> set hook_ids \<Longrightarrow> ID \<notin> set whitelist_ids \<Longrightarrow> switch_on switch_cases ID = None"
  by (simp add: hook_ids_eq whitelist_ids_eq switch_cases_def NVAPI_FUNCS_def)

lemma switch_on_whitelist:
  "ID \<in> set whitelist_ids \<Longrightarrow> switch_on switch_cases ID = Some (WHITELIST_NVAPI ID)"
  unfolding whitelist_ids_eq
  by (elim disjE | simp add: switch_cases_def NVAPI_FUNCS_def)+

lemma switch_on_hook:
  "HOOK_NVAPI fname ID \<in> set switch_cases \<Longrightarrow>
     switch_on switch_cases ID = Some (HOOK_NVAPI fname ID)"
  by (simp add: switch_cases_def NVAPI_FUNCS_def) (elim disjE conjE; simp)

lemma hook_ids_entries:
  "ID \<in> set hook_ids \<Longrightarrow> \<exists>fname. HOOK_NVAPI fname ID \<in> set switch_cases"
  unfolding hook_ids_def by auto

lemma sint_of_nat_small:
  "n < 2 ^ 31 \<Longrightarrow> sint (of_nat n :: 32 word) = int n"
  by (simp add: sint_uint signed_take_bit_int_eq_self take_bit_nat_eq_self unsigned_of_nat)

subsection \<open>Capability queries\<close>

text \<open>
  C1, as the code has it. On a recognised wrapper device and with a non-null
  \<open>pSupported\<close>, the D3D11 capability-query handler, and the D3D12 handler when the
  wrapper's real object answers the query for \<open>ID3D12Device\<close>, call the captured real
  function with the real object, return that call's status, and report the conjunction
  of the value the real function left in \<open>*pSupported\<close> and \<open>SupportedOpcode\<close> of the
  given opcode: true when both are true, false in the other three combinations.
\<close>
theorem capability_query_reports_conjunction:
  assumes dev: "pDev \<noteq> 0" "wrapped st pDev = Some w"
  shows "(hooked st NvAPI_D3D11_IsNvShaderExtnOpCodeSupported \<noteq> NULLFN \<longrightarrow>
           NvAPI_D3D11_IsNvShaderExtnOpCodeSupported_hook e st pDev opCode (Some v) =
             (let f = hooked st NvAPI_D3D11_IsNvShaderExtnOpCodeSupported;
                  r = real_IsNvShaderExtnOpCodeSupported e f (GetReal w) opCode (Some v)
              in Inr (fst r, Some (snd r \<and> SupportedOpcode e opCode),
                      emit (Invoke f
                        (Call_IsNvShaderExtnOpCodeSupported (GetReal w) opCode (Some v))) st)))
       \<and> (hooked st NvAPI_D3D12_IsNvShaderExtnOpCodeSupported \<noteq> NULLFN \<and> GetReal w \<noteq> 0 \<and>
           SUCCEEDED (fst (QueryInterface_ID3D12Device e (GetReal w))) \<and>
           snd (QueryInterface_ID3D12Device e (GetReal w)) \<noteq> 0 \<longrightarrow>
           NvAPI_D3D12_IsNvShaderExtnOpCodeSupported_hook e st pDev opCode (Some v) =
             (let f = hooked st NvAPI_D3D12_IsNvShaderExtnOpCodeSupported;
                  dev = snd (QueryInterface_ID3D12Device e (GetReal w));
                  r = real_IsNvShaderExtnOpCodeSupported e f dev opCode (Some v)
              in Inr (fst r, Some (snd r \<and> SupportedOpcode e opCode),
                      emit (Invoke f
                        (Call_IsNvShaderExtnOpCodeSupported dev opCode (Some v))) st)))"
  using dev recover_wrapper [OF dev, of e]
  by (simp add: NvAPI_D3D11_IsNvShaderExtnOpCodeSupported_hook_def
      NvAPI_D3D12_IsNvShaderExtnOpCodeSupported_hook_def SUCCEEDED_S_OK written_def Let_def
      split: prod.splits)

theorem capability_query_reports_conjunction_witness:
  "NvAPI_D3D11_IsNvShaderExtnOpCodeSupported_hook sample_env sample_state 10 1 (Some False) =
     Inr (0, Some True,
          emit (Invoke (VendorFn 103) (Call_IsNvShaderExtnOpCodeSupported 20 1 (Some False)))
            sample_state)
   \<and> NvAPI_D3D11_IsNvShaderExtnOpCodeSupported_hook sample_env sample_state 10 2 (Some False) =
     Inr (0, Some False,
          emit (Invoke (VendorFn 103) (Call_IsNvShaderExtnOpCodeSupported 20 2 (Some False)))
            sample_state)
   \<and> NvAPI_D3D12_IsNvShaderExtnOpCodeSupported_hook sample_env sample_state 10 1 (Some False) =
     Inr (0, Some True,
          emit (Invoke (VendorFn 106) (Call_IsNvShaderExtnOpCodeSupported 21 1 (Some False)))
            sample_state)"
  using capability_query_reports_conjunction [of 10 sample_state sample_wrapper sample_env 1 False]
    capability_query_reports_conjunction [of 10 sample_state sample_wrapper sample_env 2 False]
  by (simp add: sample_state_def sample_wrapper_def sample_env_def SUCCEEDED_def)


text \<open>
  The claim C1 as stated fails in the D3D12 handler: on the recognised wrapper at address
  12, whose real object does not answer the query for \<open>ID3D12Device\<close>, and with a non-null
  \<open>pSupported\<close>, no real function is called, the status is \<open>NVAPI_INVALID_POINTER\<close>, and
  the caller's \<open>true\<close> stays reported for opcode 2, which \<open>SupportedOpcode\<close> rejects.
\<close>
theorem d3d12_query_leaves_supported_unfiltered:
  "wrapper_at sample_state 12 = Some d3d11_wrapper
   \<and> \<not> SupportedOpcode sample_env 2
   \<and> NvAPI_D3D12_IsNvShaderExtnOpCodeSupported_hook sample_env sample_state 12 2 (Some True) =
       Inr (NVAPI_INVALID_POINTER, Some True, sample_state)"
  by (simp add: NvAPI_D3D12_IsNvShaderExtnOpCodeSupported_hook_def
      QueryInterface_INVAPID3DDevice_def wrapper_at_def sample_state_def sample_env_def
      d3d11_wrapper_def SUCCEEDED_def S_OK_def)

subsection \<open>Slot assignment and failed recovery\<close>

text \<open>
  C7. On a recognised wrapper device each of the four slot-assignment handlers calls the
  captured real function with the real object, then records the requested slot on the
  wrapper (with space \<open>~0U\<close> for the D3D11 variants and the requested space for the D3D12
  variants) under the global or the thread-local tag, and returns the status of the
  delegated call. The recorded state does not mention that status: the recording happens
  whatever the real function answered.
\<close>
theorem slot_assignment_records_after_delegation:
  assumes dev: "pDev \<noteq> 0" "wrapped st pDev = Some w"
  shows "(hooked st NvAPI_D3D11_SetNvShaderExtnSlot \<noteq> NULLFN \<longrightarrow>
           NvAPI_D3D11_SetNvShaderExtnSlot_hook e st pDev uavSlot =
             Inr (real_SetNvShaderExtnSlot e (hooked st NvAPI_D3D11_SetNvShaderExtnSlot)
                    (GetReal w) uavSlot,
                  (emit (Invoke (hooked st NvAPI_D3D11_SetNvShaderExtnSlot)
                     (Call_SetNvShaderExtnSlot (GetReal w) uavSlot)) st)
                  \<lparr>wrapped := (wrapped st)(pDev \<mapsto> w\<lparr>ExtUAV_global := Some (NOT 0, uavSlot)\<rparr>)\<rparr>))
       \<and> (hooked st NvAPI_D3D11_SetNvShaderExtnSlotLocalThread \<noteq> NULLFN \<longrightarrow>
           NvAPI_D3D11_SetNvShaderExtnSlotLocalThread_hook e st pDev uavSlot =
             Inr (real_SetNvShaderExtnSlot e (hooked st NvAPI_D3D11_SetNvShaderExtnSlotLocalThread)
                    (GetReal w) uavSlot,
                  (emit (Invoke (hooked st NvAPI_D3D11_SetNvShaderExtnSlotLocalThread)
                     (Call_SetNvShaderExtnSlot (GetReal w) uavSlot)) st)
                  \<lparr>wrapped := (wrapped st)(pDev \<mapsto> w\<lparr>ExtUAV_thread := Some (NOT 0, uavSlot)\<rparr>)\<rparr>))
       \<and> (hooked st NvAPI_D3D12_SetNvShaderExtnSlotSpace \<noteq> NULLFN \<longrightarrow>
           NvAPI_D3D12_SetNvShaderExtnSlotSpace_hook e st pDev uavSlot uavSpace =
             Inr (real_SetNvShaderExtnSlotSpace e (hooked st NvAPI_D3D12_SetNvShaderExtnSlotSpace)
                    (GetReal w) uavSlot uavSpace,
                  (emit (Invoke (hooked st NvAPI_D3D12_SetNvShaderExtnSlotSpace)
                     (Call_SetNvShaderExtnSlotSpace (GetReal w) uavSlot uavSpace)) st)
                  \<lparr>wrapped := (wrapped st)
                     (pDev \<mapsto> w\<lparr>ExtUAV_global := Some (uavSpace, uavSlot)\<rparr>)\<rparr>))
       \<and> (hooked st NvAPI_D3D12_SetNvShaderExtnSlotSpaceLocalThread \<noteq> NULLFN \<longrightarrow>
           NvAPI_D3D12_SetNvShaderExtnSlotSpaceLocalThread_hook e st pDev uavSlot uavSpace =
             Inr (real_SetNvShaderExtnSlotSpace e
                    (hooked st NvAPI_D3D12_SetNvShaderExtnSlotSpaceLocalThread)
                    (GetReal w) uavSlot uavSpace,
                  (emit (Invoke (hooked st NvAPI_D3D12_SetNvShaderExtnSlotSpaceLocalThread)
                     (Call_SetNvShaderExtnSlotSpace (GetReal w) uavSlot uavSpace)) st)
                  \<lparr>wrapped := (wrapped st)
                     (pDev \<mapsto> w\<lparr>ExtUAV_thread := Some (uavSpace, uavSlot)\<rparr>)\<rparr>))"
  using dev recover_wrapper [OF dev, of e]
  by (simp add: NvAPI_D3D11_SetNvShaderExtnSlot_hook_def
      NvAPI_D3D11_SetNvShaderExtnSlotLocalThread_hook_def
      NvAPI_D3D12_SetNvShaderExtnSlotSpace_hook_def
      NvAPI_D3D12_SetNvShaderExtnSlotSpaceLocalThread_hook_def SUCCEEDED_S_OK Let_def
      record_ExtUAV_def SetShaderExtUAV_def emit_def)

theorem slot_assignment_records_after_delegation_witness:
  "NvAPI_D3D11_SetNvShaderExtnSlot_hook sample_env sample_state 10 5 =
     Inr (- 1, sample_state
       \<lparr>wrapped := [10 \<mapsto> sample_wrapper\<lparr>ExtUAV_global := Some (NOT 0, 5)\<rparr>,
                    12 \<mapsto> d3d11_wrapper],
        trace := [Invoke (VendorFn 104) (Call_SetNvShaderExtnSlot 20 5)]\<rparr>)
   \<and> NvAPI_D3D11_SetNvShaderExtnSlotLocalThread_hook sample_env sample_state 10 5 =
     Inr (- 1, sample_state
       \<lparr>wrapped := [10 \<mapsto> sample_wrapper\<lparr>ExtUAV_thread := Some (NOT 0, 5)\<rparr>,
                    12 \<mapsto> d3d11_wrapper],
        trace := [Invoke (VendorFn 105) (Call_SetNvShaderExtnSlot 20 5)]\<rparr>)
   \<and> NvAPI_D3D12_SetNvShaderExtnSlotSpace_hook sample_env sample_state 10 5 3 =
     Inr (- 1, sample_state
       \<lparr>wrapped := [10 \<mapsto> sample_wrapper\<lparr>ExtUAV_global := Some (3, 5)\<rparr>,
                    12 \<mapsto> d3d11_wrapper],
        trace := [Invoke (VendorFn 107) (Call_SetNvShaderExtnSlotSpace 20 5 3)]\<rparr>)
   \<and> NvAPI_D3D12_SetNvShaderExtnSlotSpaceLocalThread_hook sample_env sample_state 10 5 3 =
     Inr (- 1, sample_state
       \<lparr>wrapped := [10 \<mapsto> sample_wrapper\<lparr>ExtUAV_thread := Some (3, 5)\<rparr>,
                    12 \<mapsto> d3d11_wrapper],
        trace := [Invoke (VendorFn 108) (Call_SetNvShaderExtnSlotSpace 20 5 3)]\<rparr>)"
  using slot_assignment_records_after_delegation [of 10 sample_state sample_wrapper sample_env 5 3]
  by (simp add: sample_state_def sample_env_def sample_wrapper_def emit_def fun_upd_twist)

text \<open>
  C8. When the query for \<open>INVAPID3DDevice\<close> on the device argument does not succeed, each
  of the six handlers returns \<open>NVAPI_INVALID_POINTER\<close> and leaves the whole state as it was:
  no foreign call is added to the trace, no wrapper is changed, and \<open>*pSupported\<close> is
  untouched.
\<close>
theorem recovery_failure_returns_invalid_pointer:
  assumes "pDev \<noteq> 0"
      and "\<not> SUCCEEDED (fst (QueryInterface_INVAPID3DDevice e st pDev))"
  shows "NvAPI_D3D11_IsNvShaderExtnOpCodeSupported_hook e st pDev opCode pSupported =
           Inr (NVAPI_INVALID_POINTER, pSupported, st)
       \<and> NvAPI_D3D12_IsNvShaderExtnOpCodeSupported_hook e st pDev opCode pSupported =
           Inr (NVAPI_INVALID_POINTER, pSupported, st)
       \<and> NvAPI_D3D11_SetNvShaderExtnSlot_hook e st pDev uavSlot =
           Inr (NVAPI_INVALID_POINTER, st)
       \<and> NvAPI_D3D11_SetNvShaderExtnSlotLocalThread_hook e st pDev uavSlot =
           Inr (NVAPI_INVALID_POINTER, st)
       \<and> NvAPI_D3D12_SetNvShaderExtnSlotSpace_hook e st pDev uavSlot uavSpace =
           Inr (NVAPI_INVALID_POINTER, st)
       \<and> NvAPI_D3D12_SetNvShaderExtnSlotSpaceLocalThread_hook e st pDev uavSlot uavSpace =
           Inr (NVAPI_INVALID_POINTER, st)"
  using assms
  by (cases "QueryInterface_INVAPID3DDevice e st pDev")
     (simp add: NvAPI_D3D11_IsNvShaderExtnOpCodeSupported_hook_def
      NvAPI_D3D12_IsNvShaderExtnOpCodeSupported_hook_def
      NvAPI_D3D11_SetNvShaderExtnSlot_hook_def
      NvAPI_D3D11_SetNvShaderExtnSlotLocalThread_hook_def
      NvAPI_D3D12_SetNvShaderExtnSlotSpace_hook_def
      NvAPI_D3D12_SetNvShaderExtnSlotSpaceLocalThread_hook_def)

theorem recovery_failure_returns_invalid_pointer_witness:
  "QueryInterface_INVAPID3DDevice sample_env sample_state 11 = (0x80004002, 0)
   \<and> NvAPI_D3D11_IsNvShaderExtnOpCodeSupported_hook sample_env sample_state 11 1 (Some False) =
       Inr (NVAPI_INVALID_POINTER, Some False, sample_state)
   \<and> NvAPI_D3D12_IsNvShaderExtnOpCodeSupported_hook sample_env sample_state 11 1 (Some False) =
       Inr (NVAPI_INVALID_POINTER, Some False, sample_state)
   \<and> NvAPI_D3D11_SetNvShaderExtnSlot_hook sample_env sample_state 11 5 =
       Inr (NVAPI_INVALID_POINTER, sample_state)
   \<and> NvAPI_D3D11_SetNvShaderExtnSlotLocalThread_hook sample_env sample_state 11 5 =
       Inr (NVAPI_INVALID_POINTER, sample_state)
   \<and> NvAPI_D3D12_SetNvShaderExtnSlotSpace_hook sample_env sample_state 11 5 3 =
       Inr (NVAPI_INVALID_POINTER, sample_state)
   \<and> NvAPI_D3D12_SetNvShaderExtnSlotSpaceLocalThread_hook sample_env sample_state 11 5 3 =
       Inr (NVAPI_INVALID_POINTER, sample_state)"
proof -
  have qi: "QueryInterface_INVAPID3DDevice sample_env sample_state 11 = (0x80004002, 0)"
    by (simp add: QueryInterface_INVAPID3DDevice_def wrapper_at_def sample_state_def
        sample_env_def)
  have fails: "\<not> SUCCEEDED (fst (QueryInterface_INVAPID3DDevice sample_env sample_state 11))"
    by (simp add: qi SUCCEEDED_def)
  have nonnull: "(11 :: addr) \<noteq> 0" by simp
  show ?thesis
    using qi recovery_failure_returns_invalid_pointer [OF nonnull fails, of 1 "Some False" 5 3]
    by simp
qed

text \<open>
  C10. In the D3D12 capability query, when the wrapper is recognised but its real object
  does not answer the query for \<open>ID3D12Device\<close>, the handler returns
  \<open>NVAPI_INVALID_POINTER\<close> with the state (and \<open>*pSupported\<close>) unchanged, so the captured
  real function is not called. The D3D11 handler has no such outcome: on the same device
  it delegates.
\<close>
theorem d3d12_query_needs_d3d12_device:
  assumes dev: "pDev \<noteq> 0" "wrapped st pDev = Some w"
      and "GetReal w \<noteq> 0"
      and "\<not> SUCCEEDED (fst (QueryInterface_ID3D12Device e (GetReal w)))"
  shows "NvAPI_D3D12_IsNvShaderExtnOpCodeSupported_hook e st pDev opCode pSupported =
           Inr (NVAPI_INVALID_POINTER, pSupported, st)
       \<and> (hooked st NvAPI_D3D11_IsNvShaderExtnOpCodeSupported \<noteq> NULLFN \<longrightarrow>
           (\<exists>ret out. NvAPI_D3D11_IsNvShaderExtnOpCodeSupported_hook e st pDev opCode pSupported =
              Inr (ret, out, emit (Invoke (hooked st NvAPI_D3D11_IsNvShaderExtnOpCodeSupported)
                (Call_IsNvShaderExtnOpCodeSupported (GetReal w) opCode pSupported)) st)))"
  using assms recover_wrapper [OF dev, of e]
  by (cases "QueryInterface_ID3D12Device e (GetReal w)")
     (simp add: NvAPI_D3D11_IsNvShaderExtnOpCodeSupported_hook_def
      NvAPI_D3D12_IsNvShaderExtnOpCodeSupported_hook_def SUCCEEDED_S_OK Let_def
      split: prod.splits)

theorem d3d12_query_needs_d3d12_device_witness:
  "NvAPI_D3D12_IsNvShaderExtnOpCodeSupported_hook sample_env sample_state 12 1 (Some True) =
     Inr (NVAPI_INVALID_POINTER, Some True, sample_state)
   \<and> (\<exists>ret out. NvAPI_D3D11_IsNvShaderExtnOpCodeSupported_hook sample_env sample_state 12 1
                   (Some True) =
        Inr (ret, out, emit (Invoke (VendorFn 103)
          (Call_IsNvShaderExtnOpCodeSupported 30 1 (Some True))) sample_state))"
  using d3d12_query_needs_d3d12_device [of 12 sample_state d3d11_wrapper sample_env 1 "Some True"]
  by (simp add: sample_state_def sample_env_def d3d11_wrapper_def SUCCEEDED_def)

subsection \<open>The identifier dispatch interceptor\<close>

text \<open>
  C3. For an identifier of the always-allow set for which the real resolver yields a
  non-null pointer, the intercepted resolve returns exactly that pointer, whatever the
  value of the "vendor extension enabled" flag; the only effect is the call of the real
  resolver.
\<close>
theorem always_allow_returns_real_pointer:
  assumes "ID \<in> set whitelist_ids"
      and "nvapi_QueryInterface st \<noteq> NULLFN"
      and "real_QueryInterface e (nvapi_QueryInterface st) ID \<noteq> NULLFN"
  shows "nvapi_QueryInterface_hook (e\<lparr>IsVendorExtensionEnabled := flag\<rparr>) st ID =
           Inr (real_QueryInterface e (nvapi_QueryInterface st) ID,
                emit (Invoke (nvapi_QueryInterface st) (Call_QueryInterface ID)) st)"
  using assms(2,3) switch_on_whitelist [OF assms(1)]
  by (simp add: nvapi_QueryInterface_hook_def Let_def)

theorem always_allow_returns_real_pointer_witness:
  "nvapi_QueryInterface_hook (sample_env\<lparr>IsVendorExtensionEnabled := True\<rparr>) sample_state
       0x0150e828 =
     Inr (VendorFn 22079528, emit (Invoke (VendorFn 1) (Call_QueryInterface 0x0150e828)) sample_state)
   \<and> nvapi_QueryInterface_hook (sample_env\<lparr>IsVendorExtensionEnabled := False\<rparr>) sample_state
       0x593e8644 =
     Inr (VendorFn 1497269828, emit (Invoke (VendorFn 1) (Call_QueryInterface 0x593e8644)) sample_state)"
  using always_allow_returns_real_pointer [of "0x0150e828" sample_state sample_env True]
    always_allow_returns_real_pointer [of "0x593e8644" sample_state sample_env False]
  by (simp add: whitelist_ids_eq sample_state_def sample_env_def)

text \<open>
  C2. For an entry \<open>HOOK_NVAPI(fname, ID)\<close> of the table: when the real resolver yields
  null, the intercepted resolve returns null and changes nothing but the trace, so no
  handler is substituted and no real pointer is recorded. Otherwise it returns the
  address of \<open>fname_hook\<close>, whatever the real pointer is, and hands the just-obtained real
  pointer to \<open>fname\<close>'s registration. On the first resolution the registration records
  it; a second resolution of the same identifier returns the same handler and leaves the
  captured real pointer unchanged, whatever the real resolver yields then.
\<close>
theorem hooked_identifier_resolution:
  assumes "HOOK_NVAPI fname ID \<in> set switch_cases"
      and "nvapi_QueryInterface st \<noteq> NULLFN"
  shows "(real_QueryInterface e0 (nvapi_QueryInterface st) ID = NULLFN \<longrightarrow>
            nvapi_QueryInterface_hook e0 st ID =
              Inr (NULLFN, emit (Invoke (nvapi_QueryInterface st) (Call_QueryInterface ID)) st))
       \<and> (real_QueryInterface e1 (nvapi_QueryInterface st) ID \<noteq> NULLFN \<longrightarrow>
            nvapi_QueryInterface_hook e1 st ID =
              Inr (HookFn fname,
                   SetFuncPtr fname (real_QueryInterface e1 (nvapi_QueryInterface st) ID)
                     (emit (Invoke (nvapi_QueryInterface st) (Call_QueryInterface ID)) st)))
       \<and> (hooked st fname = NULLFN \<and>
          real_QueryInterface e1 (nvapi_QueryInterface st) ID \<noteq> NULLFN \<and>
          real_QueryInterface e2 (nvapi_QueryInterface st) ID \<noteq> NULLFN \<longrightarrow>
            (\<exists>st1 st2.
               nvapi_QueryInterface_hook e1 st ID = Inr (HookFn fname, st1)
             \<and> hooked st1 = (hooked st)(fname := real_QueryInterface e1 (nvapi_QueryInterface st) ID)
             \<and> nvapi_QueryInterface_hook e2 st1 ID = Inr (HookFn fname, st2)
             \<and> hooked st2 = hooked st1))"
  using assms(2) switch_on_hook [OF assms(1)]
  by (auto simp: nvapi_QueryInterface_hook_def Let_def SetFuncPtr_def emit_def)

theorem hooked_identifier_resolution_witness:
  "nvapi_QueryInterface_hook (env_resolving_to NULLFN) fresh_state 0x8e90bb9f =
     Inr (NULLFN, emit (Invoke (VendorFn 1) (Call_QueryInterface 0x8e90bb9f)) fresh_state)
   \<and> (\<exists>st1 st2.
        nvapi_QueryInterface_hook (env_resolving_to (VendorFn 7)) fresh_state 0x8e90bb9f =
          Inr (HookFn NvAPI_D3D11_SetNvShaderExtnSlot, st1)
      \<and> hooked st1 NvAPI_D3D11_SetNvShaderExtnSlot = VendorFn 7
      \<and> nvapi_QueryInterface_hook (env_resolving_to (VendorFn 8)) st1 0x8e90bb9f =
          Inr (HookFn NvAPI_D3D11_SetNvShaderExtnSlot, st2)
      \<and> hooked st2 NvAPI_D3D11_SetNvShaderExtnSlot = VendorFn 7)"
proof -
  have entry: "HOOK_NVAPI NvAPI_D3D11_SetNvShaderExtnSlot 0x8e90bb9f \<in> set switch_cases"
    by (simp add: switch_cases_def NVAPI_FUNCS_def)
  have q: "nvapi_QueryInterface fresh_state \<noteq> NULLFN"
    by (simp add: fresh_state_def)
  show ?thesis
    using hooked_identifier_resolution [OF entry q, of "env_resolving_to NULLFN"
        "env_resolving_to (VendorFn 7)" "env_resolving_to (VendorFn 8)"]
    by (auto simp: fresh_state_def sample_env_def env_resolving_to_def)
qed

text \<open>
  One denial: an identifier outside both sets, the policy disabled, a non-null real
  pointer. The resolve returns null, counts the denial, and warns when the counter, read
  as a signed 32-bit value, is below 10.
\<close>
lemma denial_step:
  assumes "nvapi_QueryInterface st \<noteq> NULLFN"
      and "switch_on switch_cases ID = None"
      and "\<not> IsVendorExtensionEnabled e"
      and "real_QueryInterface e (nvapi_QueryInterface st) ID \<noteq> NULLFN"
  shows "\<exists>st'. nvapi_QueryInterface_hook e st ID = Inr (NULLFN, st')
           \<and> count st' = count st + 1
           \<and> nvapi_QueryInterface st' = nvapi_QueryInterface st
           \<and> display_name st' = display_name st
           \<and> trace st' = trace st @ Invoke (nvapi_QueryInterface st) (Call_QueryInterface ID) #
                (if sint (count st) < 10 then [RDCWARN_disabled (display_name st ID)] else [])"
  using assms
  by (auto simp: nvapi_QueryInterface_hook_def Let_def index_nvapi_lookup_def emit_def
      display_name_def fun_eq_iff split: option.splits)

lemma denials_all:
  assumes "nvapi_QueryInterface st \<noteq> NULLFN"
      and "\<forall>(e, ID) \<in> set xs. switch_on switch_cases ID = None \<and> \<not> IsVendorExtensionEnabled e
             \<and> real_QueryInterface e (nvapi_QueryInterface st) ID \<noteq> NULLFN"
  shows "\<exists>st'. resolve_all xs st = Inr (replicate (length xs) NULLFN, st')
           \<and> count st' = count st + of_nat (length xs)
           \<and> nvapi_QueryInterface st' = nvapi_QueryInterface st
           \<and> display_name st' = display_name st"
  using assms
proof (induction xs arbitrary: st)
  case Nil
  then show ?case by simp
next
  case (Cons x xs)
  obtain e ID where x: "x = (e, ID)" by (cases x)
  from Cons.prems x have here: "switch_on switch_cases ID = None" "\<not> IsVendorExtensionEnabled e"
    "real_QueryInterface e (nvapi_QueryInterface st) ID \<noteq> NULLFN" by simp_all
  from denial_step [OF Cons.prems(1) here] obtain st1 where
    s1: "nvapi_QueryInterface_hook e st ID = Inr (NULLFN, st1)"
        "count st1 = count st + 1"
        "nvapi_QueryInterface st1 = nvapi_QueryInterface st"
        "display_name st1 = display_name st"
    by blast
  from Cons.prems s1(3) have q1: "nvapi_QueryInterface st1 \<noteq> NULLFN"
    and rest: "\<forall>(e, ID) \<in> set xs. switch_on switch_cases ID = None \<and> \<not> IsVendorExtensionEnabled e
             \<and> real_QueryInterface e (nvapi_QueryInterface st1) ID \<noteq> NULLFN"
    by simp_all
  from Cons.IH [OF q1 rest] obtain st2 where
    s2: "resolve_all xs st1 = Inr (replicate (length xs) NULLFN, st2)"
        "count st2 = count st1 + of_nat (length xs)"
        "nvapi_QueryInterface st2 = nvapi_QueryInterface st1"
        "display_name st2 = display_name st1"
    by blast
  show ?case using x s1 s2 by simp
qed

text \<open>
  As long as fewer than \<open>2 ^ 31\<close> denials have been counted, the rate limit is as
  intended: after \<open>n\<close> denials of a fresh process, the next denial warns exactly when
  \<open>n < 10\<close>.
\<close>
lemma rate_limit_before_wrap:
  assumes "nvapi_QueryInterface st \<noteq> NULLFN"
      and "\<forall>(e, ID) \<in> set (xs @ [(e', ID')]). switch_on switch_cases ID = None
             \<and> \<not> IsVendorExtensionEnabled e
             \<and> real_QueryInterface e (nvapi_QueryInterface st) ID \<noteq> NULLFN"
      and "count st = 0" and "length xs < 2 ^ 31"
  shows "\<exists>st1 st2. resolve_all xs st = Inr (replicate (length xs) NULLFN, st1)
           \<and> nvapi_QueryInterface_hook e' st1 ID' = Inr (NULLFN, st2)
           \<and> trace st2 = trace st1 @ Invoke (nvapi_QueryInterface st) (Call_QueryInterface ID') #
                (if length xs < 10 then [RDCWARN_disabled (display_name st ID')] else [])"
proof -
  from assms(2) have all: "\<forall>(e, ID) \<in> set xs. switch_on switch_cases ID = None
             \<and> \<not> IsVendorExtensionEnabled e
             \<and> real_QueryInterface e (nvapi_QueryInterface st) ID \<noteq> NULLFN"
    and last: "switch_on switch_cases ID' = None" "\<not> IsVendorExtensionEnabled e'"
      "real_QueryInterface e' (nvapi_QueryInterface st) ID' \<noteq> NULLFN"
    by simp_all
  from denials_all [OF assms(1) all] obtain st1 where
    s1: "resolve_all xs st = Inr (replicate (length xs) NULLFN, st1)"
        "count st1 = count st + of_nat (length xs)"
        "nvapi_QueryInterface st1 = nvapi_QueryInterface st"
        "display_name st1 = display_name st"
    by blast
  from s1(3) assms(1) last(3) have q1: "nvapi_QueryInterface st1 \<noteq> NULLFN"
    and r1: "real_QueryInterface e' (nvapi_QueryInterface st1) ID' \<noteq> NULLFN" by simp_all
  from denial_step [OF q1 last(1,2) r1] obtain st2 where
    s2: "nvapi_QueryInterface_hook e' st1 ID' = Inr (NULLFN, st2)"
        "trace st2 = trace st1 @ Invoke (nvapi_QueryInterface st1) (Call_QueryInterface ID') #
           (if sint (count st1) < 10 then [RDCWARN_disabled (display_name st1 ID')] else [])"
    by blast
  have "sint (count st1) = int (length xs)"
    using s1(2) assms(3,4) by (simp add: sint_of_nat_small)
  with s1 s2 show ?thesis by simp
qed

text \<open>
  C4 at the failing input. The claim promises that no denial after the tenth emits a
  diagnostic. \<open>count\<close> is incremented on every denial without a bound; after \<open>2 ^ 31\<close>
  denials of the unknown identifier \<open>0x12345678\<close> (each returning null) the 32-bit counter
  has wrapped to the most negative value, and the next denial emits the warning again.
\<close>
theorem warning_resumes_after_counter_wraps:
  "\<exists>st st'. resolve_all (replicate (2 ^ 31) (sample_env, 0x12345678)) fresh_state =
          Inr (replicate (2 ^ 31) NULLFN, st)
        \<and> nvapi_QueryInterface_hook sample_env st 0x12345678 = Inr (NULLFN, st')
        \<and> trace st' = trace st @ [Invoke (VendorFn 1) (Call_QueryInterface 0x12345678),
                                    RDCWARN_disabled (HexID 0x12345678)]"
proof -
  have u: "switch_on switch_cases 0x12345678 = None"
    by (simp add: switch_cases_def NVAPI_FUNCS_def)
  have q: "nvapi_QueryInterface fresh_state \<noteq> NULLFN" by (simp add: fresh_state_def)
  have d: "\<not> IsVendorExtensionEnabled sample_env" by (simp add: sample_env_def)
  have r: "real_QueryInterface sample_env p 0x12345678 \<noteq> NULLFN" for p
    by (simp add: sample_env_def)
  have "\<forall>(e, ID) \<in> set (replicate (2 ^ 31) (sample_env, 0x12345678)).
          switch_on switch_cases ID = None \<and> \<not> IsVendorExtensionEnabled e
          \<and> real_QueryInterface e (nvapi_QueryInterface fresh_state) ID \<noteq> NULLFN"
    using u d r by simp
  from denials_all [OF q this] obtain st where
    st: "resolve_all (replicate (2 ^ 31) (sample_env, 0x12345678)) fresh_state =
           Inr (replicate (2 ^ 31) NULLFN, st)"
        "count st = count fresh_state + of_nat (2 ^ 31)"
        "nvapi_QueryInterface st = nvapi_QueryInterface fresh_state"
        "display_name st = display_name fresh_state"
    by auto
  have c: "sint (count st) < 10"
    using st(2) by (simp add: fresh_state_def)
  have n: "display_name st 0x12345678 = HexID 0x12345678"
    using st(4) by (simp add: display_name_def fresh_state_def)
  have q': "nvapi_QueryInterface st = VendorFn 1"
    using st(3) by (simp add: fresh_state_def)
  from q' have q'': "nvapi_QueryInterface st \<noteq> NULLFN" by simp
  from denial_step [OF q'' u d r] obtain st' where
    "nvapi_QueryInterface_hook sample_env st 0x12345678 = Inr (NULLFN, st')"
    "trace st' = trace st @ Invoke (nvapi_QueryInterface st) (Call_QueryInterface 0x12345678) #
       (if sint (count st) < 10 then [RDCWARN_disabled (display_name st 0x12345678)] else [])"
    by blast
  with st(1) c n q' show ?thesis by simp
qed

subsection \<open>Device creation\<close>

text \<open>
  C6. The device-only entry point reaches the real \<open>NvAPI_D3D11_CreateDevice\<close> with the
  caller's ten arguments and \<open>outNVLevel\<close> and with no surface argument, and the delegate's
  assertion holds (no assertion failure is traced). The delegate itself, whatever
  arguments it is handed, passes only the device arguments on, and its assertion fails
  exactly when a surface argument is present. The combined entry point, called with a
  non-null surface description, passes that description and the swap-chain out-parameter
  to the real \<open>NvAPI_D3D11_CreateDeviceAndSwapChain\<close> as they are.
\<close>
theorem creation_entry_points_forward_surface_arguments:
  "(hooked st NvAPI_D3D11_CreateDevice \<noteq> NULLFN \<longrightarrow>
      NvAPI_D3D11_CreateDevice_hook e st dargs outNVLevel =
        Inr (real_CreateDevice e (hooked st NvAPI_D3D11_CreateDevice) dargs outNVLevel,
             emit (Invoke (hooked st NvAPI_D3D11_CreateDevice)
               (Call_CreateDevice dargs outNVLevel)) st)
    \<and> CreateDevice_delegate e outNVLevel args st =
        Inr (real_CreateDevice e (hooked st NvAPI_D3D11_CreateDevice) (device args) outNVLevel,
             emit (Invoke (hooked st NvAPI_D3D11_CreateDevice)
               (Call_CreateDevice (device args) outNVLevel))
               (if pSwapChainDesc args = None \<and> ppSwapChain args = 0 then st
                else emit RDCASSERT_failed st)))
 \<and> (hooked st NvAPI_D3D11_CreateDeviceAndSwapChain \<noteq> NULLFN \<longrightarrow>
      NvAPI_D3D11_CreateDeviceAndSwapChain_hook e st dargs (Some desc) ppSwap outNVLevel =
        Inr (real_CreateDeviceAndSwapChain e (hooked st NvAPI_D3D11_CreateDeviceAndSwapChain)
               dargs (Some desc) ppSwap outNVLevel,
             emit (Invoke (hooked st NvAPI_D3D11_CreateDeviceAndSwapChain)
               (Call_CreateDeviceAndSwapChain dargs (Some desc) ppSwap outNVLevel)) st))"
  by (simp add: NvAPI_D3D11_CreateDevice_hook_def NvAPI_D3D11_CreateDeviceAndSwapChain_hook_def
      CreateD3D11_Internal_def CreateDevice_delegate_def CreateDeviceAndSwapChain_delegate_def
      Let_def emit_def)

theorem creation_entry_points_forward_surface_arguments_witness:
  "NvAPI_D3D11_CreateDevice_hook sample_env sample_state sample_device_args 74 =
     Inr (0, emit (Invoke (VendorFn 101) (Call_CreateDevice sample_device_args 74)) sample_state)
   \<and> NvAPI_D3D11_CreateDeviceAndSwapChain_hook sample_env sample_state sample_device_args
       (Some [1, 2, 3]) 75 74 =
     Inr (0, emit (Invoke (VendorFn 102)
            (Call_CreateDeviceAndSwapChain sample_device_args (Some [1, 2, 3]) 75 74))
          sample_state)"
  using creation_entry_points_forward_surface_arguments
    [of sample_state sample_env sample_device_args 74
      "\<lparr>device = sample_device_args, pSwapChainDesc = None, ppSwapChain = 0\<rparr>" "[1, 2, 3]" 75]
  by (simp add: sample_state_def sample_env_def)

subsection \<open>The encoder's dispatch table\<close>

text \<open>
  C5, as the code has it. With a captured real registration function: if the encoder
  handle is null or the resource kind is not \<open>NV_ENC_INPUT_RESOURCE_TYPE_DIRECTX\<close> (or
  there is no structure at all), the real function is called with the caller's structure
  as it is. If the encoder handle is
  non-null and the kind is DirectX, the real function is called with the structure whose
  handle field holds the unwrapped handle, or the original handle together with an error
  diagnostic when unwrapping yields null; whatever the real function returns and
  whatever it leaves in the structure, the handle field is set back to the caller's
  value and the real function's status is returned.
\<close>
theorem register_resource_unwraps_and_restores:
  assumes "real_nvEncRegisterResource st \<noteq> NULLFN"
  shows "(encoder = 0 \<or> resourceType p \<noteq> NV_ENC_INPUT_RESOURCE_TYPE_DIRECTX \<longrightarrow>
           NvEncodeAPIRegisterResource_hook e st encoder (Some p) =
             (let f = real_nvEncRegisterResource st;
                  r = real_RegisterResource e f encoder (Some p)
              in (fst r, Some (snd r), emit (Invoke f (Call_RegisterResource encoder (Some p))) st)))
       \<and> (encoder' \<noteq> 0 \<and> resourceType p' = NV_ENC_INPUT_RESOURCE_TYPE_DIRECTX \<longrightarrow>
           NvEncodeAPIRegisterResource_hook e st encoder' (Some p') =
             (let f = real_nvEncRegisterResource st;
                  origHandle = resourceToRegister p';
                  unwrapped = UnwrapDXResource e origHandle;
                  passed = p'\<lparr>resourceToRegister :=
                             (if unwrapped = 0 then origHandle else unwrapped)\<rparr>;
                  r = real_RegisterResource e f encoder' (Some passed)
              in (fst r, Some ((snd r)\<lparr>resourceToRegister := origHandle\<rparr>),
                  emit (Invoke f (Call_RegisterResource encoder' (Some passed)))
                    (if unwrapped = 0 then emit (RDCERR_unwrap_failed origHandle) st else st))))
       \<and> NvEncodeAPIRegisterResource_hook e st encoder'' None =
           (fst (real_RegisterResource e (real_nvEncRegisterResource st) encoder'' None), None,
            emit (Invoke (real_nvEncRegisterResource st) (Call_RegisterResource encoder'' None)) st)"
  using assms
  by (auto simp: NvEncodeAPIRegisterResource_hook_def call_RegisterResource_def written_def
      Let_def split: prod.splits)

theorem register_resource_unwraps_and_restores_witness:
  "NvEncodeAPIRegisterResource_hook sample_env sample_state 9 (Some cuda_resource) =
     (8, Some (cuda_resource\<lparr>resourceToRegister := 99\<rparr>),
      emit (Invoke (VendorFn 50) (Call_RegisterResource 9 (Some cuda_resource))) sample_state)
   \<and> NvEncodeAPIRegisterResource_hook sample_env sample_state 9 (Some directx_resource) =
     (8, Some directx_resource,
      emit (Invoke (VendorFn 50)
        (Call_RegisterResource 9 (Some (directx_resource\<lparr>resourceToRegister := 41\<rparr>))))
        sample_state)
   \<and> NvEncodeAPIRegisterResource_hook sample_env sample_state 9
       (Some (directx_resource\<lparr>resourceToRegister := 42\<rparr>)) =
     (8, Some (directx_resource\<lparr>resourceToRegister := 42\<rparr>),
      emit (Invoke (VendorFn 50)
        (Call_RegisterResource 9 (Some (directx_resource\<lparr>resourceToRegister := 42\<rparr>))))
        (emit (RDCERR_unwrap_failed 42) sample_state))"
proof -
  have captured: "real_nvEncRegisterResource sample_state \<noteq> NULLFN"
    by (simp add: sample_state_def)
  show ?thesis
    using register_resource_unwraps_and_restores
        [OF captured, of 9 cuda_resource sample_env 9 directx_resource]
      register_resource_unwraps_and_restores
        [OF captured, of 9 cuda_resource sample_env 9
          "directx_resource\<lparr>resourceToRegister := 42\<rparr>"]
    by (simp add: sample_state_def sample_env_def cuda_resource_def directx_resource_def
        NV_ENC_INPUT_RESOURCE_TYPE_DIRECTX_def NV_ENC_INPUT_RESOURCE_TYPE_CUDAARRAY_def)
qed

text \<open>
  The claim C5 as stated fails for a null encoder handle: a DirectX resource is then
  passed to the real function with its wrapped handle (40, not the unwrapped 41), and
  the handle the vendor leaves behind (99) is not set back.
\<close>
theorem null_encoder_skips_unwrapping:
  "resourceType directx_resource = NV_ENC_INPUT_RESOURCE_TYPE_DIRECTX
   \<and> resourceToRegister directx_resource = 40
   \<and> UnwrapDXResource sample_env 40 = 41
   \<and> NvEncodeAPIRegisterResource_hook sample_env sample_state 0 (Some directx_resource) =
     (8, Some (directx_resource\<lparr>resourceToRegister := 99\<rparr>),
      emit (Invoke (VendorFn 50) (Call_RegisterResource 0 (Some directx_resource))) sample_state)"
  by (simp add: NvEncodeAPIRegisterResource_hook_def call_RegisterResource_def written_def
      Let_def sample_state_def sample_env_def directx_resource_def)

text \<open>
  C9. When the real initialiser reports \<open>NV_ENC_SUCCESS\<close> and leaves a table whose
  registration pointer is non-null, the hook returns that status, stores the real pointer
  in \<open>real_nvEncRegisterResource\<close>, and puts the address of
  \<open>NvEncodeAPIRegisterResource_hook\<close> in the table's field, leaving the rest of the table
  as the vendor wrote it. A version other than \<open>expectedVersion\<close> adds a warning, and a
  previously captured pointer that differs adds an assertion failure; neither changes the
  result, the table or the captured pointer.
\<close>
theorem create_instance_patches_table:
  assumes "NvEncodeCreate st \<noteq> NULLFN"
      and "real_CreateInstance e (NvEncodeCreate st) (Some t0) = (NV_ENC_SUCCESS, tbl)"
      and "nvEncRegisterResource tbl \<noteq> NULLFN"
  shows "NvEncodeAPICreateInstance_hook e st (Some t0) =
           Inr (NV_ENC_SUCCESS,
                Some (tbl\<lparr>nvEncRegisterResource := RegisterResourceHookFn\<rparr>),
                st\<lparr>real_nvEncRegisterResource := nvEncRegisterResource tbl,
                   trace := trace st
                     @ [Invoke (NvEncodeCreate st) (Call_CreateInstance (Some t0))]
                     @ (if NV_ENCODE_API_FUNCTION_LIST.version tbl = expectedVersion then []
                        else [RDCWARN_version (NV_ENCODE_API_FUNCTION_LIST.version tbl)
                                expectedVersion])
                     @ (if real_nvEncRegisterResource st = NULLFN
                           \<or> real_nvEncRegisterResource st = nvEncRegisterResource tbl then []
                        else [RDCASSERT_failed])\<rparr>)"
  using assms
  by (simp add: NvEncodeAPICreateInstance_hook_def written_def Let_def emit_def)

theorem create_instance_patches_table_witness:
  "NvEncodeAPICreateInstance_hook sample_env sample_state (Some (vendor_table\<lparr>nvEncRegisterResource := NULLFN\<rparr>)) =
     Inr (0, Some (vendor_table\<lparr>nvEncRegisterResource := RegisterResourceHookFn\<rparr>),
          sample_state\<lparr>real_nvEncRegisterResource := VendorFn 51,
            trace := [Invoke (VendorFn 2)
                        (Call_CreateInstance (Some (vendor_table\<lparr>nvEncRegisterResource := NULLFN\<rparr>))),
                      RDCWARN_version 0x71090002 0x71020010, RDCASSERT_failed]\<rparr>)"
proof -
  have c: "NvEncodeCreate sample_state \<noteq> NULLFN"
    by (simp add: sample_state_def)
  have r: "real_CreateInstance sample_env (NvEncodeCreate sample_state)
             (Some (vendor_table\<lparr>nvEncRegisterResource := NULLFN\<rparr>)) = (NV_ENC_SUCCESS, vendor_table)"
    by (simp add: sample_env_def NV_ENC_SUCCESS_def)
  have p: "nvEncRegisterResource vendor_table \<noteq> NULLFN"
    by (simp add: vendor_table_def)
  show ?thesis
    using create_instance_patches_table [OF c r p]
    by (simp add: sample_state_def vendor_table_def expectedVersion_value NV_ENC_SUCCESS_def)
qed

end
